theory Spec2Isabelle
  imports Main
begin

section \<open>Go values, errors and panics\<close>

text \<open>
  A Go function either returns or panics. Functions of the client that can panic (a nil
  pointer dereference, a slice expression out of range) return an \<open>outcome\<close>; the
  others return their value directly.
\<close>

datatype 'a outcome = Return 'a | Panic string

text \<open>
  \<open>Error\<close> is the struct of \<^verbatim>\<open>http.go\<close>, with the source's field names.
  \<open>StatusCode\<close> is a Go \<^verbatim>\<open>int\<close>; it is only compared, never computed with.
\<close>

record Error =
  Method :: string
  URL :: string
  StatusCode :: int
  ErrorCode :: string
  Reason :: string

text \<open>
  A non-nil value of the interface type \<^verbatim>\<open>error\<close> is a dynamic type with a value.
  The only dynamic type the client distinguishes is \<^verbatim>\<open>*Error\<close>: \<open>ErrorPtr p\<close> is
  an interface value holding the pointer \<open>p\<close> of type \<^verbatim>\<open>*Error\<close>, which
  may be the nil pointer (\<open>None\<close>). \<open>ErrorString m\<close> is an error of any other dynamic
  type whose \<^verbatim>\<open>Error()\<close> text is \<open>m\<close> (\<^verbatim>\<open>errors.New\<close>, \<^verbatim>\<open>fmt.Errorf\<close>,
  \<^verbatim>\<open>*url.Error\<close>, the errors of \<^verbatim>\<open>encoding/json\<close>). The nil interface value is
  \<open>None :: error option\<close>.
\<close>

datatype error = ErrorPtr "Error option" | ErrorString string

subsection \<open>Formatting integers\<close>

definition digits :: string where
  "digits = ''0123456789''"

fun FormatUint :: "nat \<Rightarrow> string" where
  "FormatUint n = (if n < 10 then [digits ! n] else FormatUint (n div 10) @ [digits ! (n mod 10)])"

declare FormatUint.simps [simp del]

definition FormatInt :: "int \<Rightarrow> string" where
  "FormatInt i = (if i < 0 then ''-'' @ FormatUint (nat (- i)) else FormatUint (nat i))"

definition FormatBool :: "bool \<Rightarrow> string" where
  "FormatBool b = (if b then ''true'' else ''false'')"

subsection \<open>The Error method and error texts\<close>

text \<open>\<^verbatim>\<open>func (e *Error) Error() string\<close>, on a non-nil receiver.\<close>

definition Error_Error :: "Error \<Rightarrow> string" where
  "Error_Error e =
     (if ErrorCode e = '''' then Method e @ '' '' @ URL e @ '': '' @ FormatInt (StatusCode e)
      else Method e @ '' '' @ URL e @ '': ('' @ FormatInt (StatusCode e) @ '') '' @
           ErrorCode e @ '': '' @ Reason e)"

text \<open>
  What the verb \<^verbatim>\<open>%v\<close> prints for an error: the text of its \<^verbatim>\<open>Error()\<close> method;
  \<^verbatim>\<open>fmt\<close> recovers the panic of a method called on a nil pointer and prints
  \<^verbatim>\<open><nil>\<close>.
\<close>

fun Error_text :: "error \<Rightarrow> string" where
  "Error_text (ErrorString m) = m"
| "Error_text (ErrorPtr None) = ''<nil>''"
| "Error_text (ErrorPtr (Some e)) = Error_Error e"

section \<open>Error classification (http.go)\<close>

text \<open>
  \<^verbatim>\<open>dberr, ok := err.(*Error); return ok && dberr.StatusCode == statusCode\<close>.
  The type assertion succeeds for every interface value whose dynamic type is
  \<^verbatim>\<open>*Error\<close>, the nil pointer included; reading a field through the nil pointer
  panics. On the nil interface and on every other dynamic type \<open>ok\<close> is false and the
  right operand is not evaluated.
\<close>

definition nil_dereference :: string where
  "nil_dereference = ''runtime error: invalid memory address or nil pointer dereference''"

fun ErrorStatus :: "error option \<Rightarrow> int \<Rightarrow> bool outcome" where
  "ErrorStatus None statusCode = Return False"
| "ErrorStatus (Some (ErrorString m)) statusCode = Return False"
| "ErrorStatus (Some (ErrorPtr None)) statusCode = Panic nil_dereference"
| "ErrorStatus (Some (ErrorPtr (Some dberr))) statusCode = Return (StatusCode dberr = statusCode)"

definition StatusNotFound :: int where "StatusNotFound = 404"
definition StatusUnauthorized :: int where "StatusUnauthorized = 401"
definition StatusConflict :: int where "StatusConflict = 409"
definition StatusPreconditionFailed :: int where "StatusPreconditionFailed = 412"

definition NotFound :: "error option \<Rightarrow> bool outcome" where
  "NotFound err = ErrorStatus err StatusNotFound"

definition Unauthorized :: "error option \<Rightarrow> bool outcome" where
  "Unauthorized err = ErrorStatus err StatusUnauthorized"

definition Conflict :: "error option \<Rightarrow> bool outcome" where
  "Conflict err = ErrorStatus err StatusConflict"

section \<open>Query escaping (net/url)\<close>

text \<open>
  \<^verbatim>\<open>url.QueryEscape\<close> of the standard library: a byte is kept when it is an ASCII
  letter, a digit or one of \<^verbatim>\<open>- _ . ~\<close>; a space becomes \<^verbatim>\<open>+\<close>; every other
  byte becomes \<^verbatim>\<open>%XX\<close> with upper-case hexadecimal digits.
\<close>

definition upperhex :: string where
  "upperhex = ''0123456789ABCDEF''"

definition alnum :: "char \<Rightarrow> bool" where
  "alnum c = (let n = (of_char c :: nat) in
     (97 \<le> n \<and> n \<le> 122) \<or> (65 \<le> n \<and> n \<le> 90) \<or> (48 \<le> n \<and> n \<le> 57))"

definition shouldEscape :: "char \<Rightarrow> bool" where
  "shouldEscape c = (\<not> (alnum c \<or> c = CHR ''-'' \<or> c = CHR ''_'' \<or> c = CHR ''.'' \<or> c = CHR ''~''))"

definition escape_byte :: "char \<Rightarrow> string" where
  "escape_byte c =
     (if shouldEscape c then
        (if c = CHR '' '' then ''+''
         else [CHR ''%'', upperhex ! ((of_char c :: nat) div 16), upperhex ! ((of_char c :: nat) mod 16)])
      else [c])"

definition QueryEscape :: "string \<Rightarrow> string" where
  "QueryEscape s = concat (map escape_byte s)"

section \<open>Paths (http.go)\<close>

definition path :: "string list \<Rightarrow> string" where
  "path segs = foldl (\<lambda>r seg. r @ ''/'' @ QueryEscape seg) '''' segs"

definition revpath :: "string \<Rightarrow> string list \<Rightarrow> string" where
  "revpath rev' segs =
     (let r = path segs in
      if rev' \<noteq> '''' then r @ ''?rev='' @ QueryEscape rev' else r)"

section \<open>Option values and their encodings\<close>

text \<open>
  \<^verbatim>\<open>type Options map[string]interface{}\<close>. The values of the empty interface that
  the encoder tells apart are modelled by \<open>val\<close>: the nil interface, the scalar kinds
  of \<^verbatim>\<open>reflect\<close> that \<^verbatim>\<open>encval\<close> accepts (every signed width reads as
  \<^verbatim>\<open>rv.Int()\<close>, every unsigned width as \<^verbatim>\<open>rv.Uint()\<close>), slices (with the name of
  their type and their elements; the element type is not a byte) as the composite kind,
  and \<open>VOpaque\<close> for the kinds that have no JSON form either (channels, functions,
  complex numbers), with the name of the type.

  Binary floating point is outside the embedding. A float is represented by the two
  texts the standard library derives from it: \<open>fmt_f\<close> is
  \<^verbatim>\<open>strconv.FormatFloat(x, 'f', -1, bits)\<close> and \<open>fmt_json\<close> is the number
  \<^verbatim>\<open>encoding/json\<close> writes, \<open>None\<close> for NaN and the infinities, which it rejects.
\<close>

datatype float = Float (fmt_f: string) (fmt_json: "string option")

datatype val =
    VNil
  | VString string
  | VBool bool
  | VInt int
  | VUint nat
  | VFloat32 float
  | VFloat64 float
  | VSlice string "val list"
  | VOpaque string

type_synonym Options = "(string \<times> val) list"

text \<open>
  An \<open>Options\<close> value lists the entries of the map in the order in which the
  \<^verbatim>\<open>range\<close> statement visits them, which Go leaves unspecified: a property of the
  encoder is stated for every list, hence for every order.
\<close>

subsection \<open>JSON encoding (encoding/json)\<close>

definition lowerhex :: string where
  "lowerhex = ''0123456789abcdef''"

definition backslash :: char where
  "backslash = CHR 0x5C"

definition dquote :: char where
  "dquote = CHR 0x22"

text \<open>
  The string encoder of \<^verbatim>\<open>json.Marshal\<close> (HTML escaping on) on the bytes below
  \<^verbatim>\<open>0x80\<close>; a byte from \<^verbatim>\<open>0x80\<close> on is copied, which is what the library does
  inside valid UTF-8 other than U+2028 and U+2029.
\<close>

definition json_escape_byte :: "char \<Rightarrow> string" where
  "json_escape_byte c =
     (let n = (of_char c :: nat) in
      if c = dquote \<or> c = backslash then [backslash, c]
      else if n = 8 then [backslash, CHR ''b'']
      else if n = 12 then [backslash, CHR ''f'']
      else if n = 10 then [backslash, CHR ''n'']
      else if n = 13 then [backslash, CHR ''r'']
      else if n = 9 then [backslash, CHR ''t'']
      else if n < 32 \<or> c = CHR ''<'' \<or> c = CHR ''>'' \<or> c = CHR ''&'' then
        [backslash, CHR ''u'', CHR ''0'', CHR ''0'', lowerhex ! (n div 16), lowerhex ! (n mod 16)]
      else [c])"

definition json_string :: "string \<Rightarrow> string" where
  "json_string s = [dquote] @ concat (map json_escape_byte s) @ [dquote]"

fun join :: "string \<Rightarrow> string list \<Rightarrow> string" where
  "join sep [] = []"
| "join sep [x] = x"
| "join sep (x # y # ys) = x @ sep @ join sep (y # ys)"

fun Marshal :: "val \<Rightarrow> error + string"
  and Marshal_elems :: "val list \<Rightarrow> error + string list" where
  "Marshal VNil = Inr ''null''"
| "Marshal (VString s) = Inr (json_string s)"
| "Marshal (VBool b) = Inr (FormatBool b)"
| "Marshal (VInt i) = Inr (FormatInt i)"
| "Marshal (VUint n) = Inr (FormatUint n)"
| "Marshal (VFloat32 f) =
     (case fmt_json f of None \<Rightarrow> Inl (ErrorString (''json: unsupported value: '' @ fmt_f f))
      | Some t \<Rightarrow> Inr t)"
| "Marshal (VFloat64 f) =
     (case fmt_json f of None \<Rightarrow> Inl (ErrorString (''json: unsupported value: '' @ fmt_f f))
      | Some t \<Rightarrow> Inr t)"
| "Marshal (VSlice ty xs) =
     (case Marshal_elems xs of Inl err \<Rightarrow> Inl err
      | Inr ts \<Rightarrow> Inr (''['' @ join '','' ts @ '']''))"
| "Marshal (VOpaque ty) = Inl (ErrorString (''json: unsupported type: '' @ ty))"
| "Marshal_elems [] = Inr []"
| "Marshal_elems (x # xs) =
     (case Marshal x of Inl err \<Rightarrow> Inl err
      | Inr t \<Rightarrow> (case Marshal_elems xs of Inl err \<Rightarrow> Inl err | Inr ts \<Rightarrow> Inr (t # ts)))"

subsection \<open>Quoting for error messages (strconv)\<close>

text \<open>
  The verb \<^verbatim>\<open>%q\<close> on a string is \<^verbatim>\<open>strconv.Quote\<close>. The model is exact on
  the bytes below \<^verbatim>\<open>0x80\<close> and copies the others (the library copies printable
  runes and escapes the rest).
\<close>

definition quote_byte :: "char \<Rightarrow> string" where
  "quote_byte c =
     (let n = (of_char c :: nat) in
      if c = dquote \<or> c = backslash then [backslash, c]
      else if 32 \<le> n \<and> n \<le> 126 then [c]
      else if n = 7 then [backslash, CHR ''a'']
      else if n = 8 then [backslash, CHR ''b'']
      else if n = 12 then [backslash, CHR ''f'']
      else if n = 10 then [backslash, CHR ''n'']
      else if n = 13 then [backslash, CHR ''r'']
      else if n = 9 then [backslash, CHR ''t'']
      else if n = 11 then [backslash, CHR ''v'']
      else if n < 32 \<or> n = 127 then
        [backslash, CHR ''x'', lowerhex ! (n div 16), lowerhex ! (n mod 16)]
      else [c])"

definition Quote :: "string \<Rightarrow> string" where
  "Quote s = [dquote] @ concat (map quote_byte s) @ [dquote]"

section \<open>The option encoder (http.go)\<close>

text \<open>The name \<^verbatim>\<open>rv.Type()\<close> prints, for the kinds of the default branch.\<close>

fun Type_String :: "val \<Rightarrow> string" where
  "Type_String (VSlice ty xs) = ty"
| "Type_String (VOpaque ty) = ty"
| "Type_String VNil = ''<nil>''"
| "Type_String (VString s) = ''string''"
| "Type_String (VBool b) = ''bool''"
| "Type_String (VInt i) = ''int''"
| "Type_String (VUint n) = ''uint''"
| "Type_String (VFloat32 f) = ''float32''"
| "Type_String (VFloat64 f) = ''float64''"

text \<open>
  \<^verbatim>\<open>encval(w, k, v)\<close> writes to the buffer \<open>w\<close> and returns an error; the model
  returns the error or the buffer after the write. A write to a \<^verbatim>\<open>bytes.Buffer\<close>
  returns no error.
\<close>

fun encval :: "string \<Rightarrow> string \<Rightarrow> val \<Rightarrow> error + string" where
  "encval w k VNil = Inl (ErrorString ''value is nil'')"
| "encval w k (VString s) = Inr (w @ QueryEscape s)"
| "encval w k (VBool b) = Inr (w @ FormatBool b)"
| "encval w k (VInt i) = Inr (w @ FormatInt i)"
| "encval w k (VUint n) = Inr (w @ FormatUint n)"
| "encval w k (VFloat32 f) = Inr (w @ fmt_f f)"
| "encval w k (VFloat64 f) = Inr (w @ fmt_f f)"
| "encval w k v = Inl (ErrorString (''unsupported type: '' @ Type_String v))"

text \<open>\<^verbatim>\<open>fmt.Errorf("invalid option %q: %v", k, err)\<close>.\<close>

definition invalid_option :: "string \<Rightarrow> error \<Rightarrow> error" where
  "invalid_option k err = ErrorString (''invalid option '' @ Quote k @ '': '' @ Error_text err)"

text \<open>The inner loop of \<^verbatim>\<open>encopts\<close> that sets \<^verbatim>\<open>isjson\<close>.\<close>

fun isjson :: "string \<Rightarrow> string list \<Rightarrow> bool" where
  "isjson k [] = False"
| "isjson k (jskey # jskeys) = (if k = jskey then True else isjson k jskeys)"

text \<open>
  The body of the \<^verbatim>\<open>range\<close> loop of \<^verbatim>\<open>encopts\<close>, with the buffer and the flag
  \<^verbatim>\<open>amp\<close> as loop state.
\<close>

fun encopts_loop :: "string list \<Rightarrow> Options \<Rightarrow> string \<Rightarrow> bool \<Rightarrow> error + string" where
  "encopts_loop jskeys [] buf amp = Inr buf"
| "encopts_loop jskeys ((k, v) # opts) buf amp =
     (let buf1 = (if amp then buf @ ''&'' else buf);
          buf2 = buf1 @ QueryEscape k;
          buf3 = buf2 @ ''=''
      in if isjson k jskeys then
           (case Marshal v of
              Inl err \<Rightarrow> Inl (invalid_option k err)
            | Inr jsonv \<Rightarrow> encopts_loop jskeys opts (buf3 @ QueryEscape jsonv) True)
         else
           (case encval buf3 k v of
              Inl err \<Rightarrow> Inl (invalid_option k err)
            | Inr buf4 \<Rightarrow> encopts_loop jskeys opts buf4 True))"

definition encopts :: "Options \<Rightarrow> string list \<Rightarrow> error + string" where
  "encopts opts jskeys = encopts_loop jskeys opts ''?'' False"

definition optpath :: "Options \<Rightarrow> string list \<Rightarrow> string list \<Rightarrow> error + string" where
  "optpath opts jskeys segs =
     (let r = path segs in
      if length opts > 0 then
        (case encopts opts jskeys of Inl err \<Rightarrow> Inl err | Inr os \<Rightarrow> Inr (r @ os))
      else Inr r)"

definition getJsonKeys :: "string list" where
  "getJsonKeys = [''open_revs'', ''atts_since'']"

definition viewJsonKeys :: "string list" where
  "viewJsonKeys = [''startkey'', ''start_key'', ''key'', ''endkey'', ''end_key'', ''keys'']"

section \<open>HTTP messages (net/http)\<close>

text \<open>
  The parts of \<^verbatim>\<open>http.Request\<close> and \<^verbatim>\<open>http.Response\<close> the client reads or
  writes. A caller-supplied context is identified by a number; \<open>Background\<close> is
  \<^verbatim>\<open>context.Background()\<close>.
\<close>

datatype go_context = Background | Context nat

record Request =
  req_method :: string
  req_url :: string
  req_header :: "(string \<times> string) list"
  req_body :: "string option"
  req_ctx :: go_context

text \<open>
  A response body is a stream: \<open>data\<close> is what reading it to the end yields (the
  bytes, or the text of a read failure), \<open>drained\<close> and \<open>closed\<close> record what has
  been done to it.
\<close>

record ReadCloser =
  data :: "string + string"
  drained :: bool
  closed :: bool

record Response =
  status_code :: int
  resp_header :: "string \<rightharpoonup> string list"
  resp_body :: ReadCloser
  content_length :: int
  resp_request :: Request

definition Header_Set :: "string \<Rightarrow> string \<Rightarrow> (string \<times> string) list \<Rightarrow> (string \<times> string) list" where
  "Header_Set k v h = (k, v) # filter (\<lambda>p. fst p \<noteq> k) h"

text \<open>\<^verbatim>\<open>Header.Get\<close>: the first value of the key, the empty string when there is none.\<close>

definition Header_Get :: "(string \<rightharpoonup> string list) \<Rightarrow> string \<Rightarrow> string" where
  "Header_Get h k = (case h k of None \<Rightarrow> '''' | Some [] \<Rightarrow> '''' | Some (v # vs) \<Rightarrow> v)"

definition ReadAll :: "ReadCloser \<Rightarrow> (string + string) \<times> ReadCloser" where
  "ReadAll rc =
     (if closed rc then (Inl ''http: read on closed response body'', rc)
      else if drained rc then (Inr '''', rc)
      else (data rc, rc\<lparr>drained := True\<rparr>))"

definition Close :: "ReadCloser \<Rightarrow> ReadCloser" where
  "Close rc = rc\<lparr>closed := True\<rparr>"

text \<open>
  \<^verbatim>\<open>json.Unmarshal(body, &v)\<close> into a zero-valued target of some type is a decoder
  \<open>dec\<close> of that type, a parameter of the functions that decode: it gives the decoded
  value or the text of the decoding error. Whatever the target, the library rejects
  empty input. Every caller discards the target when decoding fails, so a partly
  written target is never observed.
\<close>

definition Unmarshal :: "(string \<Rightarrow> string + 'a) \<Rightarrow> string \<Rightarrow> string + 'a" where
  "Unmarshal dec bytes = (if bytes = [] then Inl ''unexpected end of JSON input'' else dec bytes)"

text \<open>
  \<^verbatim>\<open>http.NewRequest\<close> fails on a method or URL it cannot parse. \<open>url_error\<close> gives
  the text of that failure, if any; \<open>decode_reply\<close> is \<^verbatim>\<open>json.Unmarshal\<close> into
  \<^verbatim>\<open>struct{ Error, Reason string }\<close>.
\<close>

record stdlib =
  url_error :: "string \<Rightarrow> string \<Rightarrow> string option"
  decode_reply :: "string \<Rightarrow> string + (string \<times> string)"

definition NewRequest :: "stdlib \<Rightarrow> string \<Rightarrow> string \<Rightarrow> string option \<Rightarrow> string + Request" where
  "NewRequest L m u b =
     (case url_error L m u of
        Some msg \<Rightarrow> Inl msg
      | None \<Rightarrow> Inr \<lparr>req_method = m, req_url = u, req_header = [], req_body = b, req_ctx = Background\<rparr>)"

section \<open>The transport (http.go)\<close>

text \<open>
  \<open>http\<close> is the injected HTTP-exchange capability, \<^verbatim>\<open>t.http.Do\<close>: the remote
  server, with a state \<open>'s\<close> of its own, answers a request with a response or with a
  transport failure (always a \<^verbatim>\<open>*url.Error\<close>, given by its text).

  Modelled from the spec: the type \<^verbatim>\<open>Auth\<close> is declared in a file that is not among
  the sources. The spec describes it as the capability that, given an outgoing request,
  adds credentials to it (a header); \<open>auth\<close> is that decoration of the header, \<open>None\<close>
  when no strategy is set.
\<close>

record 's transport =
  prefix :: string
  http :: "Request \<Rightarrow> 's \<Rightarrow> (string + Response) \<times> 's"
  auth :: "((string \<times> string) list \<Rightarrow> (string \<times> string) list) option"

text \<open>
  The world outside the client: the state of the server and, as the observable trace of
  the client, the requests that have been dispatched, oldest first.
\<close>

record 's world =
  server :: 's
  sent :: "Request list"

definition Do :: "'s transport \<Rightarrow> Request \<Rightarrow> 's world \<Rightarrow> (string + Response) \<times> 's world" where
  "Do t req w =
     (let (r, s') = http t req (server w)
      in (r, w\<lparr>server := s', sent := sent w @ [req]\<rparr>))"

definition newRequest ::
  "stdlib \<Rightarrow> 's transport \<Rightarrow> go_context \<Rightarrow> string \<Rightarrow> string \<Rightarrow> string option \<Rightarrow> error + Request" where
  "newRequest L t c m p b =
     (case NewRequest L m (prefix t @ p) b of
        Inl msg \<Rightarrow> Inl (ErrorString msg)
      | Inr req \<Rightarrow>
          (let req1 = (if c \<noteq> Background then req\<lparr>req_ctx := c\<rparr> else req)
           in case auth t of
                None \<Rightarrow> Inr req1
              | Some a \<Rightarrow> Inr (req1\<lparr>req_header := a (req_header req1)\<rparr>)))"

text \<open>
  \<^verbatim>\<open>readBody(resp, v)\<close>: the deferred \<^verbatim>\<open>Close\<close> runs on every path. The result
  is the error or the decoded value, and the response with its body as it is left.
\<close>

definition readBody :: "Response \<Rightarrow> (string \<Rightarrow> string + 'a) \<Rightarrow> (error + 'a) \<times> Response" where
  "readBody resp dec =
     (let (r, rc) = ReadAll (resp_body resp);
          resp' = resp\<lparr>resp_body := Close rc\<rparr>
      in case r of
           Inl msg \<Rightarrow> (Inl (ErrorString msg), resp')
         | Inr bytes \<Rightarrow>
             (case Unmarshal dec bytes of
                Inl msg \<Rightarrow> (Inl (ErrorString msg), resp')
              | Inr v \<Rightarrow> (Inr v, resp')))"

definition couldnt_decode :: string where
  "couldnt_decode = ''unknown, couldn'' @ [CHR 0x27] @ ''t decode CouchDB error: ''"

text \<open>
  \<^verbatim>\<open>parseError(resp)\<close> returns a non-nil \<^verbatim>\<open>*Error\<close>; the model also returns the
  response as the call leaves it.
\<close>

definition parseError :: "stdlib \<Rightarrow> Response \<Rightarrow> error \<times> Response" where
  "parseError L resp =
     (let (reply, resp') =
            (if req_method (resp_request resp) \<noteq> ''HEAD'' then
               (case readBody resp (decode_reply L) of
                  (Inl err, resp1) \<Rightarrow>
                    (let unknown = couldnt_decode @ Error_text err in ((unknown, unknown), resp1))
                | (Inr r, resp1) \<Rightarrow> (r, resp1))
             else (('''', ''''), resp))
      in (ErrorPtr (Some \<lparr>Method = req_method (resp_request resp), URL = req_url (resp_request resp),
                           StatusCode = status_code resp,
                           ErrorCode = fst reply, Reason = snd reply\<rparr>),
          resp'))"

definition request ::
  "stdlib \<Rightarrow> 's transport \<Rightarrow> go_context \<Rightarrow> string \<Rightarrow> string \<Rightarrow> string option \<Rightarrow> 's world \<Rightarrow>
     (error + Response) \<times> 's world" where
  "request L t c m p b w =
     (case newRequest L t c m p b of
        Inl err \<Rightarrow> (Inl err, w)
      | Inr req \<Rightarrow>
          (let req1 = (if m \<noteq> ''GET''
                       then req\<lparr>req_header := Header_Set ''Content-Type'' ''application/json'' (req_header req)\<rparr>
                       else req);
               (r, w') = Do t req1 w
           in case r of
                Inl msg \<Rightarrow> (Inl (ErrorString msg), w')
              | Inr resp \<Rightarrow>
                  if status_code resp \<ge> 400 then (Inl (fst (parseError L resp)), w')
                  else (Inr resp, w')))"

definition closedRequest ::
  "stdlib \<Rightarrow> 's transport \<Rightarrow> go_context \<Rightarrow> string \<Rightarrow> string \<Rightarrow> string option \<Rightarrow> 's world \<Rightarrow>
     (error + Response) \<times> 's world" where
  "closedRequest L t c m p b w =
     (case request L t c m p b w of
        (Inr resp, w') \<Rightarrow> (Inr (resp\<lparr>resp_body := Close (snd (ReadAll (resp_body resp)))\<rparr>), w')
      | (Inl err, w') \<Rightarrow> (Inl err, w'))"

section \<open>Response decoders (http.go)\<close>

text \<open>
  A slice expression \<^verbatim>\<open>s[lo:hi]\<close> on a string panics unless
  \<^verbatim>\<open>0 <= lo <= hi <= len(s)\<close>.
\<close>

definition slice :: "string \<Rightarrow> int \<Rightarrow> int \<Rightarrow> string outcome" where
  "slice s lo hi =
     (if 0 \<le> lo \<and> lo \<le> hi \<and> hi \<le> int (length s)
      then Return (take (nat (hi - lo)) (drop (nat lo) s))
      else Panic ''runtime error: slice bounds out of range'')"

text \<open>
  \<^verbatim>\<open>responseRev(resp, err)\<close> is applied to what \<^verbatim>\<open>closedRequest\<close> returns: an
  error and no response, or a response and no error.
\<close>

definition responseRev :: "error + Response \<Rightarrow> (error + string) outcome" where
  "responseRev r =
     (case r of
        Inl err \<Rightarrow> Return (Inl err)
      | Inr resp \<Rightarrow>
          (let etag = Header_Get (resp_header resp) ''Etag'' in
           if etag = '''' then
             Return (Inl (ErrorString ''couchdb: missing Etag header in response''))
           else
             (case slice etag 1 (int (length etag) - 1) of
                Panic msg \<Rightarrow> Panic msg
              | Return s \<Rightarrow> Return (Inr s))))"

section \<open>Databases (couchdb.go)\<close>

record 's ContextAwareDB =
  transport :: "'s transport"
  name :: string

definition Get ::
  "stdlib \<Rightarrow> 's ContextAwareDB \<Rightarrow> go_context \<Rightarrow> string \<Rightarrow> (string \<Rightarrow> string + 'a) \<Rightarrow> Options \<Rightarrow>
     's world \<Rightarrow> (error + 'a) \<times> 's world" where
  "Get L db c id' dec opts w =
     (case optpath opts getJsonKeys [name db, id'] of
        Inl err \<Rightarrow> (Inl err, w)
      | Inr p \<Rightarrow>
          (case request L (transport db) c ''GET'' p None w of
             (Inl err, w') \<Rightarrow> (Inl err, w')
           | (Inr resp, w') \<Rightarrow> (fst (readBody resp dec), w')))"

text \<open>
  \<^verbatim>\<open>Put\<close> marshals any document; \<open>marshal\<close> is \<^verbatim>\<open>json.Marshal\<close> at the type of
  the document.
\<close>

definition Put ::
  "stdlib \<Rightarrow> 's ContextAwareDB \<Rightarrow> go_context \<Rightarrow> string \<Rightarrow> ('d \<Rightarrow> string + string) \<Rightarrow> 'd \<Rightarrow> string \<Rightarrow>
     's world \<Rightarrow> (error + string) outcome \<times> 's world" where
  "Put L db c id' marshal doc rev' w =
     (let p = revpath rev' [name db, id'] in
      case marshal doc of
        Inl msg \<Rightarrow> (Return (Inl (ErrorString msg)), w)
      | Inr json \<Rightarrow>
          (let (r, w') = closedRequest L (transport db) c ''PUT'' p (Some json) w
           in (responseRev r, w')))"

subsection \<open>Security objects\<close>

record Members =
  Names :: "string list"
  Roles :: "string list"

record Security =
  Admins :: Members
  Members :: Members

definition new_Security :: Security where
  "new_Security = \<lparr>Admins = \<lparr>Names = [], Roles = []\<rparr>, Members = \<lparr>Names = [], Roles = []\<rparr>\<rparr>"

definition Security ::
  "stdlib \<Rightarrow> 's ContextAwareDB \<Rightarrow> go_context \<Rightarrow> (string \<Rightarrow> string + Security) \<Rightarrow> 's world \<Rightarrow>
     (error + Security) \<times> 's world" where
  "Security L db c dec w =
     (let secobj = new_Security in
      case request L (transport db) c ''GET'' (path [name db, ''_security'']) None w of
        (Inl err, w') \<Rightarrow> (Inl err, w')
      | (Inr resp, w') \<Rightarrow>
          if content_length resp = 0 then (Inr secobj, w')
          else (case fst (readBody resp dec) of
                  Inl err \<Rightarrow> (Inl err, w')
                | Inr s \<Rightarrow> (Inr s, w')))"

subsection \<open>Design documents\<close>

text \<open>
  Modelled from the spec: the types \<^verbatim>\<open>Design\<close> and \<^verbatim>\<open>View\<close> and the method
  \<^verbatim>\<open>ViewChecksum\<close> are declared in a file that is not among the sources. The spec
  gives a design document an identifier, a revision and named view definitions, each a
  map function and an optional reduce function, and derives from the view definitions
  a content checksum, a stable hash. The hash is the parameter \<open>checksum\<close>;
  \<open>marshal_design\<close> and \<open>decode_design\<close> are \<^verbatim>\<open>json.Marshal\<close> and
  \<^verbatim>\<open>json.Unmarshal\<close> at the type \<^verbatim>\<open>*Design\<close> (marshalling a struct of strings
  and a string-keyed map of such structs does not fail).
\<close>

record View =
  MapFn :: string
  Reduce :: string

record Design =
  ID :: string
  Rev :: string
  Views :: "(string \<times> View) list"

record design_lib =
  checksum :: "(string \<times> View) list \<Rightarrow> string"
  marshal_design :: "Design \<Rightarrow> string"
  decode_design :: "string \<Rightarrow> string + Design"

definition ViewChecksum :: "design_lib \<Rightarrow> Design \<Rightarrow> string" where
  "ViewChecksum D d = checksum D (Views d)"

definition new_Design :: Design where
  "new_Design = \<lparr>ID = '''', Rev = '''', Views = []\<rparr>"

text \<open>
  \<^verbatim>\<open>SyncDesign(ctx, d)\<close> mutates the design through the pointer \<open>d\<close>: the model
  returns the outcome of the call (the returned error, \<open>None\<close> for nil, or a panic),
  the design as the call leaves it, and the world.
\<close>

definition SyncDesign ::
  "stdlib \<Rightarrow> design_lib \<Rightarrow> 's ContextAwareDB \<Rightarrow> go_context \<Rightarrow> Design \<Rightarrow> 's world \<Rightarrow>
     error option outcome \<times> Design \<times> 's world" where
  "SyncDesign L D db c d w =
     (let (g, w1) = Get L db c (ID d) (decode_design D) [] w;
          sync = (\<lambda>prev.
            if Rev prev \<noteq> '''' \<and> ViewChecksum D d = ViewChecksum D prev then
              (Return None, d\<lparr>Rev := Rev prev\<rparr>, w1)
            else
              (let d1 = d\<lparr>Rev := ''''\<rparr>;
                   (pr, w2) = Put L db c (ID d1) (\<lambda>x. Inr (marshal_design D x)) d1 (Rev prev) w1
               in case pr of
                    Panic msg \<Rightarrow> (Panic msg, d1, w2)
                  | Return (Inl err) \<Rightarrow> (Return (Some err), d1, w2)
                  | Return (Inr rev') \<Rightarrow> (Return None, d1\<lparr>Rev := rev'\<rparr>, w2)))
      in case g of
           Inr prev \<Rightarrow> sync prev
         | Inl err \<Rightarrow>
             (case NotFound (Some err) of
                Panic msg \<Rightarrow> (Panic msg, d, w1)
              | Return nf \<Rightarrow> if \<not> nf then (Return (Some err), d, w1) else sync new_Design))"

section \<open>Predicates used in the statements\<close>

text \<open>The kinds \<^verbatim>\<open>encval\<close> accepts: string, bool, integer and float.\<close>

fun scalar :: "val \<Rightarrow> bool" where
  "scalar (VString s) = True"
| "scalar (VBool b) = True"
| "scalar (VInt i) = True"
| "scalar (VUint n) = True"
| "scalar (VFloat32 f) = True"
| "scalar (VFloat64 f) = True"
| "scalar v = False"

text \<open>
  What the spec says one entry of the option mapping contributes to the query string:
  the escaped key, an equals sign, and the value, as escaped JSON for a key among the
  JSON keys and in its scalar form otherwise.
\<close>

definition param :: "string list \<Rightarrow> string \<times> val \<Rightarrow> error + string" where
  "param jskeys kv =
     (if fst kv \<in> set jskeys then
        (case Marshal (snd kv) of
           Inl err \<Rightarrow> Inl (invalid_option (fst kv) err)
         | Inr jsonv \<Rightarrow> Inr (QueryEscape (fst kv) @ ''='' @ QueryEscape jsonv))
      else
        (case encval [] (fst kv) (snd kv) of
           Inl err \<Rightarrow> Inl (invalid_option (fst kv) err)
         | Inr t \<Rightarrow> Inr (QueryEscape (fst kv) @ ''='' @ t)))"

text \<open>The characters that delimit a query string and its parameters.\<close>

definition delimiters :: "char set" where
  "delimiters = {CHR ''&'', CHR ''='', CHR ''?'', CHR ''#'', CHR ''/'', CHR '' ''}"

section \<open>Example servers and inputs\<close>

text \<open>
  Concrete instances of the parameters, on which the theorems below are exercised. The
  example servers count the requests they answer.
\<close>

definition respond :: "int \<Rightarrow> (string \<times> string) list \<Rightarrow> string \<Rightarrow> int \<Rightarrow> Request \<Rightarrow> Response" where
  "respond code hdr bytes len req =
     \<lparr>status_code = code,
      resp_header = map_of (map (\<lambda>kv. (fst kv, [snd kv])) hdr),
      resp_body = \<lparr>data = Inr bytes, drained = False, closed = False\<rparr>,
      content_length = len,
      resp_request = req\<rparr>"

definition not_found_body :: string where
  "not_found_body =
     ''{'' @ json_string ''error'' @ '':'' @ json_string ''not_found'' @ '','' @
     json_string ''reason'' @ '':'' @ json_string ''missing'' @ ''}''"

definition example_lib :: stdlib where
  "example_lib =
     \<lparr>url_error = (\<lambda>m u. None),
      decode_reply = (\<lambda>bytes. if bytes = not_found_body then Inr (''not_found'', ''missing'')
                               else Inl ''invalid character'')\<rparr>"

definition example_views :: "(string \<times> View) list" where
  "example_views = [(''by_created_at'', \<lparr>MapFn = ''function(d) { emit(d.created_at, 1); }'', Reduce = ''_sum''\<rparr>)]"

definition local_design :: Design where
  "local_design = \<lparr>ID = ''_design/test'', Rev = '''', Views = example_views\<rparr>"

text \<open>A local design that still carries a revision from another database.\<close>

definition stale_design :: Design where
  "stale_design = \<lparr>ID = ''_design/test'', Rev = ''7-0badc0de'', Views = example_views\<rparr>"

definition remote_design :: Design where
  "remote_design = \<lparr>ID = ''_design/test'', Rev = ''1-619db7ba'', Views = example_views\<rparr>"

definition remote_design_body :: string where
  "remote_design_body = ''{'' @ json_string ''_rev'' @ '':'' @ json_string ''1-619db7ba'' @ ''}''"

definition example_design_lib :: design_lib where
  "example_design_lib =
     \<lparr>checksum = (\<lambda>vs. concat (map (\<lambda>nv. fst nv @ MapFn (snd nv) @ Reduce (snd nv)) vs)),
      marshal_design = (\<lambda>d. ''{'' @ json_string ''_id'' @ '':'' @ json_string (ID d) @ ''}''),
      decode_design = (\<lambda>bytes. if bytes = remote_design_body then Inr remote_design
                                else Inl ''invalid character'')\<rparr>"

definition server_unchanged :: "Request \<Rightarrow> nat \<Rightarrow> (string + Response) \<times> nat" where
  "server_unchanged req s = (Inr (respond 200 [] remote_design_body (int (length remote_design_body)) req), Suc s)"



definition server_conflict :: "Request \<Rightarrow> nat \<Rightarrow> (string + Response) \<times> nat" where
  "server_conflict req s =
     (if req_method req = ''GET'' then (Inr (respond 404 [] not_found_body (int (length not_found_body)) req), Suc s)
      else (Inr (respond 409 [] ''<html>'' 6 req), Suc s))"

definition server_down :: "Request \<Rightarrow> nat \<Rightarrow> (string + Response) \<times> nat" where
  "server_down req s = (Inl ''dial tcp: connection refused'', s)"

definition server_empty :: "Request \<Rightarrow> nat \<Rightarrow> (string + Response) \<times> nat" where
  "server_empty req s = (Inr (respond 200 [] '''' 0 req), Suc s)"


definition example_db :: "(Request \<Rightarrow> nat \<Rightarrow> (string + Response) \<times> nat) \<Rightarrow> nat ContextAwareDB" where
  "example_db srv = \<lparr>transport = \<lparr>prefix = ''http://127.0.0.1:5984'', http = srv, auth = None\<rparr>, name = ''db''\<rparr>"

definition world0 :: "nat world" where
  "world0 = \<lparr>server = 0, sent = []\<rparr>"


definition head_request :: Request where
  "head_request = \<lparr>req_method = ''HEAD'', req_url = ''http://127.0.0.1:5984/db/doc'', req_header = [], req_body = None, req_ctx = Background\<rparr>"

definition get_request :: Request where
  "get_request = \<lparr>req_method = ''GET'', req_url = ''http://127.0.0.1:5984/db/doc'', req_header = [], req_body = None, req_ctx = Background\<rparr>"

definition etag_response :: "string \<Rightarrow> Response" where
  "etag_response e = respond 201 [(''Etag'', e)] '''' 0 head_request"

section \<open>Properties\<close>

subsection \<open>Error classification\<close>

text \<open>
  C6, as stated, fails on one error value: an interface value that holds the nil pointer
  of type \<^verbatim>\<open>*Error\<close> passes the type assertion, and the three predicates panic on
  the field access.
\<close>

theorem predicates_panic_on_nil_Error_pointer:
  "NotFound (Some (ErrorPtr None)) = Panic nil_dereference \<and>
   Unauthorized (Some (ErrorPtr None)) = Panic nil_dereference \<and>
   Conflict (Some (ErrorPtr None)) = Panic nil_dereference"
  by (simp add: NotFound_def Unauthorized_def Conflict_def)

text \<open>
  C6, amended: for every error value other than a nil \<^verbatim>\<open>*Error\<close> pointer (the nil
  interface and errors of every other type included), \<open>NotFound\<close>, \<open>Unauthorized\<close> and
  \<open>Conflict\<close> return, without panicking, true exactly when the error is a Server Error
  with status code 404, 401 and 409 respectively.
\<close>

theorem predicates_classify:
  assumes "err \<noteq> Some (ErrorPtr None)"
  shows "NotFound err = Return (\<exists>e. err = Some (ErrorPtr (Some e)) \<and> StatusCode e = 404) \<and>
         Unauthorized err = Return (\<exists>e. err = Some (ErrorPtr (Some e)) \<and> StatusCode e = 401) \<and>
         Conflict err = Return (\<exists>e. err = Some (ErrorPtr (Some e)) \<and> StatusCode e = 409)"
proof (cases "(err, 0::int)" rule: ErrorStatus.cases)
  case (3 statusCode)
  with assms show ?thesis by simp
qed (simp_all add: NotFound_def Unauthorized_def Conflict_def
       StatusNotFound_def StatusUnauthorized_def StatusConflict_def)

theorem predicates_classify_witness:
  "NotFound (Some (ErrorString ''dial tcp: connection refused'')) = Return False \<and>
   Unauthorized (Some (ErrorString ''dial tcp: connection refused'')) = Return False \<and>
   Conflict (Some (ErrorString ''dial tcp: connection refused'')) = Return False \<and>
   NotFound (Some (fst (parseError example_lib (respond 404 [] not_found_body 41 get_request)))) = Return True \<and>
   Conflict (Some (fst (parseError example_lib (respond 404 [] not_found_body 41 get_request)))) = Return False"
proof -
  have a: "Some (ErrorString ''dial tcp: connection refused'') \<noteq> Some (ErrorPtr None)"
    by simp
  have b: "Some (fst (parseError example_lib (respond 404 [] not_found_body 41 get_request))) \<noteq> Some (ErrorPtr None)"
    by (simp add: parseError_def split: prod.splits)
  have c: "\<exists>e. fst (parseError example_lib (respond 404 [] not_found_body 41 get_request)) = ErrorPtr (Some e) \<and> StatusCode e = 404"
    by (simp add: parseError_def respond_def split: prod.splits)
  show ?thesis
    using predicates_classify [OF a] predicates_classify [OF b] c by auto
qed

subsection \<open>Revision from the ETag header\<close>

text \<open>
  C10 says that \<open>responseRev\<close> returns without panicking for every non-empty header
  value. The code guards the empty value only: on a header value of one byte the slice
  expression \<^verbatim>\<open>etag[1 : len(etag)-1]\<close> has its bounds out of order and the call
  panics.
\<close>

theorem responseRev_panics_on_one_byte_etag:
  "responseRev (Inr (etag_response ''W'')) = Panic ''runtime error: slice bounds out of range''"
  by (simp add: responseRev_def etag_response_def respond_def Header_Get_def slice_def)

lemma responseRev_missing:
  "Header_Get (resp_header resp) ''Etag'' = '''' \<Longrightarrow>
   responseRev (Inr resp) = Return (Inl (ErrorString ''couchdb: missing Etag header in response''))"
  by (simp add: responseRev_def)


subsection \<open>Constructing a Server Error\<close>

lemma parseError_is_Error: "\<exists>e. fst (parseError L resp) = ErrorPtr (Some e) \<and> StatusCode e = status_code resp"
  by (simp add: parseError_def split: prod.splits)

text \<open>
  C7: the error built from a failed response carries the method and URL of the request
  and the status code of the response; for a request other than HEAD whose body does
  not decode, the error code and the reason are both the marker
  \<open>couldnt_decode\<close> followed by the text of the decoding failure; for a HEAD request
  both are empty and the response, its body included, is left as it was.
\<close>

theorem parseError_fields:
  assumes "parseError L resp = (err, resp')"
  shows "\<exists>e. err = ErrorPtr (Some e) \<and>
           Method e = req_method (resp_request resp) \<and>
           URL e = req_url (resp_request resp) \<and>
           StatusCode e = status_code resp \<and>
           (req_method (resp_request resp) = ''HEAD'' \<longrightarrow>
              ErrorCode e = '''' \<and> Reason e = '''' \<and> resp' = resp) \<and>
           (req_method (resp_request resp) \<noteq> ''HEAD'' \<longrightarrow>
              (\<forall>x. fst (readBody resp (decode_reply L)) = Inl x \<longrightarrow>
                 ErrorCode e = couldnt_decode @ Error_text x \<and>
                 Reason e = couldnt_decode @ Error_text x))"
proof (cases "req_method (resp_request resp) = ''HEAD''")
  case True
  with assms show ?thesis
    by (auto simp add: parseError_def)
next
  case False
  obtain r resp1 where rb: "readBody resp (decode_reply L) = (r, resp1)"
    by (cases "readBody resp (decode_reply L)")
  show ?thesis
  proof (cases r)
    case (Inl x)
    with assms False rb show ?thesis
      by (auto simp add: parseError_def Let_def)
  next
    case (Inr v)
    with assms False rb show ?thesis
      by (auto simp add: parseError_def Let_def split: prod.splits)
  qed
qed

theorem parseError_fields_witness:
  "parseError example_lib (respond 404 [] ''ignored'' 7 head_request) =
     (ErrorPtr (Some \<lparr>Method = ''HEAD'', URL = ''http://127.0.0.1:5984/db/doc'', StatusCode = 404,
                       ErrorCode = '''', Reason = ''''\<rparr>),
      respond 404 [] ''ignored'' 7 head_request) \<and>
   fst (parseError example_lib (respond 500 [] ''<html>'' 6 get_request)) =
     ErrorPtr (Some \<lparr>Method = ''GET'', URL = ''http://127.0.0.1:5984/db/doc'', StatusCode = 500,
                      ErrorCode = couldnt_decode @ ''invalid character'',
                      Reason = couldnt_decode @ ''invalid character''\<rparr>)"
proof -
  obtain e1 r1 where p1: "parseError example_lib (respond 404 [] ''ignored'' 7 head_request) = (e1, r1)"
    by (cases "parseError example_lib (respond 404 [] ''ignored'' 7 head_request)")
  obtain e2 r2 where p2: "parseError example_lib (respond 500 [] ''<html>'' 6 get_request) = (e2, r2)"
    by (cases "parseError example_lib (respond 500 [] ''<html>'' 6 get_request)")
  have m1: "req_method (resp_request (respond 404 [] ''ignored'' 7 head_request)) = ''HEAD''"
    by (simp add: respond_def head_request_def)
  have m2: "req_method (resp_request (respond 500 [] ''<html>'' 6 get_request)) \<noteq> ''HEAD''"
    by (simp add: respond_def get_request_def)
  have rb: "fst (readBody (respond 500 [] ''<html>'' 6 get_request) (decode_reply example_lib)) =
              Inl (ErrorString ''invalid character'')"
    by (simp add: readBody_def ReadAll_def respond_def Unmarshal_def example_lib_def not_found_body_def)
  from parseError_fields [OF p1] m1 have "e1 = ErrorPtr (Some \<lparr>Method = ''HEAD'',
      URL = ''http://127.0.0.1:5984/db/doc'', StatusCode = 404, ErrorCode = '''', Reason = ''''\<rparr>) \<and>
      r1 = respond 404 [] ''ignored'' 7 head_request"
    by (auto simp add: respond_def head_request_def)
  moreover from parseError_fields [OF p2] m2 rb have "e2 = ErrorPtr (Some \<lparr>Method = ''GET'',
      URL = ''http://127.0.0.1:5984/db/doc'', StatusCode = 500,
      ErrorCode = couldnt_decode @ ''invalid character'',
      Reason = couldnt_decode @ ''invalid character''\<rparr>)"
    by (auto simp add: respond_def get_request_def)
  ultimately show ?thesis using p1 p2 by simp
qed

subsection \<open>Classification of responses by the transport\<close>

text \<open>
  C1: when the request can be built and the exchange answers with a response, a status
  code of 400 or more makes \<open>request\<close> return a Server Error and no response, and a
  status code below 400 makes it return that response and no error.
\<close>

theorem request_classifies:
  assumes "newRequest L t c m p b = Inr req"
    and "http t (if m \<noteq> ''GET''
                 then req\<lparr>req_header := Header_Set ''Content-Type'' ''application/json'' (req_header req)\<rparr>
                 else req) (server w) = (Inr resp, s')"
  shows "(400 \<le> status_code resp \<longrightarrow>
            (\<exists>e. fst (request L t c m p b w) = Inl (ErrorPtr (Some e)) \<and>
                   StatusCode e = status_code resp)) \<and>
         (status_code resp < 400 \<longrightarrow> fst (request L t c m p b w) = Inr resp)"
  using assms parseError_is_Error [of L resp]
  by (auto simp add: request_def Do_def Let_def split: prod.splits)

theorem request_classifies_witness:
  "(\<exists>e. fst (request example_lib (transport (example_db server_conflict)) Background ''PUT'' ''/db/doc''
              (Some ''{}'') world0) = Inl (ErrorPtr (Some e)) \<and> StatusCode e = 409) \<and>
   fst (request example_lib (transport (example_db server_empty)) Background ''GET'' ''/db/doc''
          None world0) = Inr (respond 200 [] '''' 0 get_request)"
proof -
  have n1: "newRequest example_lib (transport (example_db server_conflict)) Background ''PUT'' ''/db/doc'' (Some ''{}'') =
    Inr \<lparr>req_method = ''PUT'', req_url = ''http://127.0.0.1:5984/db/doc'', req_header = [],
         req_body = Some ''{}'', req_ctx = Background\<rparr>"
    by (simp add: newRequest_def NewRequest_def example_lib_def example_db_def)
  have n2: "newRequest example_lib (transport (example_db server_empty)) Background ''GET'' ''/db/doc'' None =
    Inr get_request"
    by (simp add: newRequest_def NewRequest_def example_lib_def example_db_def get_request_def)
  have h1: "http (transport (example_db server_conflict))
      (if ''PUT'' \<noteq> ''GET''
       then \<lparr>req_method = ''PUT'', req_url = ''http://127.0.0.1:5984/db/doc'', req_header = [],
              req_body = Some ''{}'', req_ctx = Background\<rparr>
            \<lparr>req_header := Header_Set ''Content-Type'' ''application/json''
               (req_header \<lparr>req_method = ''PUT'', req_url = ''http://127.0.0.1:5984/db/doc'', req_header = [],
              req_body = Some ''{}'', req_ctx = Background\<rparr>)\<rparr>
       else \<lparr>req_method = ''PUT'', req_url = ''http://127.0.0.1:5984/db/doc'', req_header = [],
              req_body = Some ''{}'', req_ctx = Background\<rparr>) (server world0) =
     (Inr (respond 409 [] ''<html>'' 6 \<lparr>req_method = ''PUT'', req_url = ''http://127.0.0.1:5984/db/doc'',
            req_header = [(''Content-Type'', ''application/json'')],
            req_body = Some ''{}'', req_ctx = Background\<rparr>), Suc 0)"
    by (simp add: example_db_def server_conflict_def world0_def Header_Set_def)
  have h2: "http (transport (example_db server_empty))
      (if ''GET'' \<noteq> ''GET''
       then get_request\<lparr>req_header := Header_Set ''Content-Type'' ''application/json'' (req_header get_request)\<rparr>
       else get_request) (server world0) = (Inr (respond 200 [] '''' 0 get_request), Suc 0)"
    by (simp add: example_db_def server_empty_def world0_def)
  show ?thesis
    using request_classifies [OF n1 h1] request_classifies [OF n2 h2]
    by (simp add: respond_def)
qed

subsection \<open>The security object\<close>




subsection \<open>The option encoder\<close>

lemma isjson_iff: "isjson k jskeys \<longleftrightarrow> k \<in> set jskeys"
  by (induction jskeys) auto

lemma encval_not_scalar: "\<not> scalar v \<Longrightarrow> \<exists>err. encval w k v = Inl err"
  by (cases v) simp_all

lemma encval_append: "encval w k v = Inr buf \<Longrightarrow> \<exists>t. encval [] k v = Inr t \<and> buf = w @ t"
  by (cases v) auto

lemma encopts_loop_error:
  assumes "(k, v) \<in> set opts" and "k \<notin> set jskeys" and "\<not> scalar v"
  shows "\<exists>err. encopts_loop jskeys opts buf amp = Inl err"
  using assms
proof (induction opts arbitrary: buf amp)
  case Nil
  then show ?case by simp
next
  case (Cons kv opts)
  obtain k' v' where kv: "kv = (k', v')" by (cases kv)
  show ?case
  proof (cases "(k, v) = (k', v')")
    case True
    with Cons.prems have "\<not> scalar v'" and nj: "\<not> isjson k' jskeys"
      by (simp_all add: isjson_iff)
    then obtain err where
      "encval ((if amp then buf @ ''&'' else buf) @ QueryEscape k' @ ''='') k' v' = Inl err"
      using encval_not_scalar by blast
    with nj kv show ?thesis
      by (simp add: Let_def)
  next
    case False
    with Cons.prems(1) kv have "(k, v) \<in> set opts" by auto
    with Cons.IH Cons.prems have ih: "\<And>buf amp. \<exists>err. encopts_loop jskeys opts buf amp = Inl err"
      by blast
    show ?thesis
      using ih kv by (auto simp add: Let_def split: sum.splits)
  qed
qed

text \<open>
  C4, as stated, fails for a key among the JSON keys: its value is marshalled, and the
  JSON form of nil is \<^verbatim>\<open>null\<close>, so the encoding succeeds.
\<close>

theorem encopts_nil_under_json_key:
  "encopts [(''startkey'', VNil)] viewJsonKeys = Inr ''?startkey=null''"
  by code_simp

text \<open>
  C4, amended: for every option mapping in which some key that is not among the JSON
  keys maps to nil or to a value other than a string, a bool, an integer or a float,
  the encoder returns an error (in whatever order the entries are visited).
\<close>

theorem encopts_rejects:
  assumes "(k, v) \<in> set opts" and "k \<notin> set jskeys" and "\<not> scalar v"
  shows "\<exists>err. encopts opts jskeys = Inl err"
  using encopts_loop_error [OF assms] by (simp add: encopts_def)

theorem encopts_rejects_witness:
  "(\<exists>err. encopts [(''limit'', VInt 10), (''stale'', VNil)] viewJsonKeys = Inl err) \<and>
   (\<exists>err. encopts [(''limit'', VSlice ''[]int'' [VInt 1]), (''key'', VString ''a'')] viewJsonKeys = Inl err)"
proof -
  have a: "(''stale'', VNil) \<in> set [(''limit'', VInt 10), (''stale'', VNil)]" by simp
  have b: "''stale'' \<notin> set viewJsonKeys" by (simp add: viewJsonKeys_def)
  have c: "\<not> scalar VNil" by simp
  have d: "(''limit'', VSlice ''[]int'' [VInt 1]) \<in>
             set [(''limit'', VSlice ''[]int'' [VInt 1]), (''key'', VString ''a'')]" by simp
  have e: "''limit'' \<notin> set viewJsonKeys" by (simp add: viewJsonKeys_def)
  have f: "\<not> scalar (VSlice ''[]int'' [VInt 1])" by simp
  show ?thesis
    using encopts_rejects [OF a b c] encopts_rejects [OF d e f] by simp
qed

subsection \<open>JSON keys in the query string\<close>

lemma join_Cons: "join sep (x # xs) = x @ (if xs = [] then [] else sep @ join sep xs)"
  by (cases xs) simp_all

lemma encopts_loop_params:
  "encopts_loop jskeys opts buf amp = Inr s \<Longrightarrow>
   \<exists>ps. map (param jskeys) opts = map Inr ps \<and>
        s = buf @ (if amp \<and> opts \<noteq> [] then ''&'' else []) @ join ''&'' ps"
proof (induction opts arbitrary: buf amp s)
  case Nil
  then show ?case by simp
next
  case (Cons kv opts)
  obtain k v where kv: "kv = (k, v)" by (cases kv)
  let ?b3 = "(if amp then buf @ ''&'' else buf) @ QueryEscape k @ ''=''"
  show ?case
  proof (cases "isjson k jskeys")
    case True
    with Cons.prems kv obtain jsonv where m: "Marshal v = Inr jsonv"
      and rest: "encopts_loop jskeys opts (?b3 @ QueryEscape jsonv) True = Inr s"
      by (auto simp add: Let_def split: sum.splits)
    from Cons.IH [OF rest] obtain ps where ps: "map (param jskeys) opts = map Inr ps"
      and s: "s = (?b3 @ QueryEscape jsonv) @ (if True \<and> opts \<noteq> [] then ''&'' else []) @ join ''&'' ps"
      by blast
    from ps have len: "length ps = length opts"
      by (metis length_map)
    have p: "param jskeys kv = Inr (QueryEscape k @ ''='' @ QueryEscape jsonv)"
      using True m kv by (simp add: param_def isjson_iff)
    have "map (param jskeys) (kv # opts) = map Inr ((QueryEscape k @ ''='' @ QueryEscape jsonv) # ps)"
      using p ps by simp
    moreover have "s = buf @ (if amp \<and> kv # opts \<noteq> [] then ''&'' else []) @
                       join ''&'' ((QueryEscape k @ ''='' @ QueryEscape jsonv) # ps)"
      using s len by (auto simp add: join_Cons)
    ultimately show ?thesis by blast
  next
    case False
    with Cons.prems kv obtain buf4 where m: "encval ?b3 k v = Inr buf4"
      and rest: "encopts_loop jskeys opts buf4 True = Inr s"
      by (auto simp add: Let_def split: sum.splits)
    from encval_append [OF m] obtain t where t: "encval [] k v = Inr t" and b4: "buf4 = ?b3 @ t"
      by blast
    from Cons.IH [OF rest] obtain ps where ps: "map (param jskeys) opts = map Inr ps"
      and s: "s = buf4 @ (if True \<and> opts \<noteq> [] then ''&'' else []) @ join ''&'' ps"
      by blast
    from ps have len: "length ps = length opts"
      by (metis length_map)
    have p: "param jskeys kv = Inr (QueryEscape k @ ''='' @ t)"
      using False t kv by (simp add: param_def isjson_iff)
    have "map (param jskeys) (kv # opts) = map Inr ((QueryEscape k @ ''='' @ t) # ps)"
      using p ps by simp
    moreover have "s = buf @ (if amp \<and> kv # opts \<noteq> [] then ''&'' else []) @
                       join ''&'' ((QueryEscape k @ ''='' @ t) # ps)"
      using s b4 len by (auto simp add: join_Cons)
    ultimately show ?thesis by blast
  qed
qed

lemma of_char_less_256: "(of_char c :: nat) < 256"
  by (cases c) (simp add: of_char_def)

lemma upperhex_not_delimiter: "i < 16 \<Longrightarrow> upperhex ! i \<notin> delimiters"
proof -
  assume "i < 16"
  then have "i < length upperhex"
    by (simp add: upperhex_def)
  then have "upperhex ! i \<in> set upperhex"
    by (rule nth_mem)
  moreover have "set upperhex \<inter> delimiters = {}"
    by (simp add: upperhex_def delimiters_def)
  ultimately show ?thesis by blast
qed

lemma alnum_not_delimiter: "alnum c \<Longrightarrow> c \<notin> delimiters"
  by (auto simp add: alnum_def delimiters_def Let_def)

lemma escape_byte_no_delimiter: "set (escape_byte c) \<inter> delimiters = {}"
proof -
  have "(of_char c :: nat) < 16 * 16"
    using of_char_less_256 [of c] by simp
  then have "(of_char c :: nat) div 16 < 16"
    by (rule less_mult_imp_div_less)
  moreover have "(of_char c :: nat) mod 16 < 16"
    by simp
  ultimately have "(of_char c :: nat) div 16 < 16" and "(of_char c :: nat) mod 16 < 16"
    by simp_all
  then have "upperhex ! ((of_char c :: nat) div 16) \<notin> delimiters"
    and "upperhex ! ((of_char c :: nat) mod 16) \<notin> delimiters"
    by (simp_all add: upperhex_not_delimiter)
  moreover have "CHR ''%'' \<notin> delimiters" and "CHR ''+'' \<notin> delimiters"
    by (simp_all add: delimiters_def)
  moreover have "\<not> shouldEscape c \<Longrightarrow> c \<notin> delimiters"
    using alnum_not_delimiter [of c] by (auto simp add: shouldEscape_def delimiters_def)
  ultimately show ?thesis
    by (auto simp add: escape_byte_def)
qed

lemma QueryEscape_no_delimiter: "set (QueryEscape s) \<inter> delimiters = {}"
  using escape_byte_no_delimiter by (auto simp add: QueryEscape_def)

text \<open>
  C5: when the encoder returns a query string, it is a question mark followed by one
  parameter per entry of the mapping, joined by ampersands, and the parameter of each
  entry whose key is among the JSON keys is the escaped key, an equals sign and the
  query escape of the JSON representation of the value, which contains none of the
  characters that delimit parameters: it is a single query value.
\<close>

theorem encopts_json_key:
  assumes "encopts opts jskeys = Inr s"
    and "i < length opts" and "opts ! i = (k, v)" and "k \<in> set jskeys"
  shows "\<exists>jsonv ps. Marshal v = Inr jsonv \<and>
           length ps = length opts \<and>
           s = ''?'' @ join ''&'' ps \<and>
           ps ! i = QueryEscape k @ ''='' @ QueryEscape jsonv \<and>
           set (QueryEscape jsonv) \<inter> delimiters = {}"
proof -
  from assms(1) have "encopts_loop jskeys opts ''?'' False = Inr s"
    by (simp add: encopts_def)
  from encopts_loop_params [OF this] obtain ps where ps: "map (param jskeys) opts = map Inr ps"
    and s: "s = ''?'' @ join ''&'' ps"
    by auto
  from ps have len: "length ps = length opts"
    by (metis length_map)
  from ps assms(2) len have "param jskeys (opts ! i) = Inr (ps ! i)"
    by (metis nth_map)
  with assms(3,4) obtain jsonv where "Marshal v = Inr jsonv"
    and "ps ! i = QueryEscape k @ ''='' @ QueryEscape jsonv"
    by (auto simp add: param_def split: sum.splits)
  with len s QueryEscape_no_delimiter [of jsonv] show ?thesis
    by blast
qed

theorem encopts_json_key_witness:
  "encopts [(''startkey'', VSlice ''[]string'' [VString ''a'', VString ''b''])] viewJsonKeys =
     Inr ''?startkey=%5B%22a%22%2C%22b%22%5D'' \<and>
   (\<exists>jsonv ps. Marshal (VSlice ''[]string'' [VString ''a'', VString ''b'']) = Inr jsonv \<and>
      length ps = 1 \<and>
      ''?startkey=%5B%22a%22%2C%22b%22%5D'' = ''?'' @ join ''&'' ps \<and>
      ps ! 0 = ''startkey='' @ QueryEscape jsonv \<and>
      set (QueryEscape jsonv) \<inter> delimiters = {})"
proof -
  have a: "encopts [(''startkey'', VSlice ''[]string'' [VString ''a'', VString ''b''])] viewJsonKeys =
             Inr ''?startkey=%5B%22a%22%2C%22b%22%5D''"
    by code_simp
  have b: "0 < length [(''startkey'', VSlice ''[]string'' [VString ''a'', VString ''b''])]"
    by simp
  have c: "[(''startkey'', VSlice ''[]string'' [VString ''a'', VString ''b''])] ! 0 =
             (''startkey'', VSlice ''[]string'' [VString ''a'', VString ''b''])"
    by simp
  have d: "''startkey'' \<in> set viewJsonKeys"
    by (simp add: viewJsonKeys_def)
  have e: "QueryEscape ''startkey'' = ''startkey''"
    by code_simp
  show ?thesis
    using a encopts_json_key [OF a b c d] e by simp
qed

subsection \<open>What a request leaves in the trace\<close>

lemma newRequest_fields:
  "newRequest L t c m p b = Inr q \<Longrightarrow>
   req_method q = m \<and> req_url q = prefix t @ p \<and> req_body q = b"
  by (auto simp add: newRequest_def NewRequest_def Let_def split: option.splits sum.splits if_splits)


lemma parseError_not_nil: "fst (parseError L resp) \<noteq> ErrorPtr None"
  by (simp add: parseError_def split: prod.splits)

lemma newRequest_error_not_nil: "newRequest L t c m p b = Inl err \<Longrightarrow> err \<noteq> ErrorPtr None"
  by (auto simp add: newRequest_def Let_def split: sum.splits option.splits)

lemma request_error_not_nil:
  assumes "request L t c m p b w = (Inl err, w')"
  shows "err \<noteq> ErrorPtr None"
proof (cases "newRequest L t c m p b")
  case (Inl e)
  with assms newRequest_error_not_nil [OF Inl] show ?thesis
    by (simp add: request_def)
next
  case (Inr q)
  let ?q = "if m \<noteq> ''GET''
            then q\<lparr>req_header := Header_Set ''Content-Type'' ''application/json'' (req_header q)\<rparr>
            else q"
  obtain r w1 where d: "Do t ?q w = (r, w1)"
    by (cases "Do t ?q w")
  show ?thesis
  proof (cases r)
    case (Inl msg)
    with assms Inr d show ?thesis
      by (auto simp add: request_def Let_def)
  next
    case (Inr resp)
    with assms \<open>newRequest L t c m p b = Inr q\<close> d parseError_not_nil [of L resp] show ?thesis
      by (auto simp add: request_def Let_def split: if_splits)
  qed
qed

lemma request_sent:
  assumes "request L t c m p b w = (r, w')"
  shows "sent w' = sent w \<and> (\<exists>err. r = Inl err) \<or>
         (\<exists>q. sent w' = sent w @ [q] \<and> req_method q = m \<and> req_url q = prefix t @ p \<and>
               req_body q = b)"
proof (cases "newRequest L t c m p b")
  case (Inl err)
  with assms show ?thesis by (auto simp add: request_def)
next
  case (Inr q)
  let ?q = "if m \<noteq> ''GET''
            then q\<lparr>req_header := Header_Set ''Content-Type'' ''application/json'' (req_header q)\<rparr>
            else q"
  from newRequest_fields [OF Inr]
  have f: "req_method ?q = m \<and> req_url ?q = prefix t @ p \<and> req_body ?q = b"
    by simp
  obtain r1 w1 where d: "Do t ?q w = (r1, w1)"
    by (cases "Do t ?q w")
  then have "sent w1 = sent w @ [?q]"
    by (auto simp add: Do_def Let_def split: prod.splits)
  moreover from assms Inr d have "w' = w1"
    by (auto simp add: request_def Let_def split: sum.splits if_splits)
  ultimately have "sent w' = sent w @ [?q]" by simp
  with f show ?thesis by blast
qed

lemma request_ok_sent:
  "request L t c m p b w = (Inr resp, w') \<Longrightarrow>
   \<exists>q. sent w' = sent w @ [q] \<and> req_method q = m \<and> req_url q = prefix t @ p \<and> req_body q = b"
  using request_sent [of L t c m p b w "Inr resp" w'] by auto

lemma encopts_loop_error_form:
  "encopts_loop jskeys opts buf amp = Inl e \<Longrightarrow> \<exists>m. e = ErrorString m"
proof (induction opts arbitrary: buf amp)
  case Nil
  then show ?case by simp
next
  case (Cons kv opts)
  obtain k v where "kv = (k, v)" by (cases kv)
  with Cons show ?case
    by (auto simp add: invalid_option_def Let_def split: sum.splits if_splits)
qed

lemma optpath_error_form: "optpath opts jskeys segs = Inl e \<Longrightarrow> \<exists>m. e = ErrorString m"
  using encopts_loop_error_form
  by (auto simp add: optpath_def Let_def encopts_def split: if_splits sum.splits)

lemma readBody_error_form: "fst (readBody resp dec) = Inl e \<Longrightarrow> \<exists>m. e = ErrorString m"
  by (auto simp add: readBody_def Let_def split: prod.splits sum.splits)

lemma Get_error_not_nil:
  assumes "Get L db c i dec opts w = (Inl err, w')"
  shows "err \<noteq> ErrorPtr None"
proof (cases "optpath opts getJsonKeys [name db, i]")
  case (Inl e)
  with assms optpath_error_form [OF Inl] show ?thesis
    by (auto simp add: Get_def)
next
  case (Inr p)
  obtain r w1 where rq: "request L (transport db) c ''GET'' p None w = (r, w1)"
    by (cases "request L (transport db) c ''GET'' p None w")
  show ?thesis
  proof (cases r)
    case (Inl e)
    with assms Inr rq request_error_not_nil [of L "transport db" c "''GET''" p None w e w1]
    show ?thesis by (auto simp add: Get_def)
  next
    case (Inr resp)
    with assms \<open>optpath opts getJsonKeys [name db, i] = Inr p\<close> rq
    have "fst (readBody resp dec) = Inl err"
      by (simp add: Get_def)
    from readBody_error_form [OF this] show ?thesis by auto
  qed
qed


lemma Get_ok_sent:
  assumes "Get L db c i dec opts w = (Inr v, w1)"
  shows "\<exists>q. sent w1 = sent w @ [q] \<and> req_method q = ''GET''"
proof -
  from assms obtain p where p: "optpath opts getJsonKeys [name db, i] = Inr p"
    by (auto simp add: Get_def split: sum.splits)
  obtain r w' where rq: "request L (transport db) c ''GET'' p None w = (r, w')"
    by (cases "request L (transport db) c ''GET'' p None w")
  with assms p obtain resp where "r = Inr resp" and "w1 = w'"
    by (auto simp add: Get_def split: sum.splits)
  with request_ok_sent [of L "transport db" c "''GET''" p None w resp w'] rq show ?thesis
    by auto
qed

subsection \<open>Synchronising a design document\<close>

text \<open>
  C2: when the fetch of the design's identifier yields a remote design with a non-empty
  revision and the same view checksum as the local design, \<open>SyncDesign\<close> returns
  success, the local design carries the remote revision, and the only request that has
  been dispatched is the GET of the fetch: no PUT is issued.
\<close>

theorem SyncDesign_unchanged:
  assumes "Get L db c (ID d) (decode_design D) [] w = (Inr prev, w1)"
    and "Rev prev \<noteq> ''''"
    and "ViewChecksum D prev = ViewChecksum D d"
  shows "SyncDesign L D db c d w = (Return None, d\<lparr>Rev := Rev prev\<rparr>, w1) \<and>
         (\<exists>q. sent w1 = sent w @ [q] \<and> req_method q = ''GET'')"
  using assms Get_ok_sent [OF assms(1)]
  by (simp add: SyncDesign_def)

lemma path_example: "path [''db'', ''_design/test''] = ''/db/_design%2Ftest''"
  by code_simp


lemma remote_design_body_not_empty: "remote_design_body \<noteq> []"
  by (simp add: remote_design_body_def)

lemma Get_unchanged_example:
  "Get example_lib (example_db server_unchanged) Background (ID local_design)
       (decode_design example_design_lib) [] world0 =
     (Inr remote_design,
      \<lparr>server = Suc 0,
       sent = [\<lparr>req_method = ''GET'', req_url = ''http://127.0.0.1:5984/db/_design%2Ftest'',
                req_header = [], req_body = None, req_ctx = Background\<rparr>]\<rparr>)"
  using remote_design_body_not_empty
  by (simp add: Get_def optpath_def path_example local_design_def example_db_def request_def
        newRequest_def NewRequest_def example_lib_def Do_def server_unchanged_def world0_def
        respond_def readBody_def ReadAll_def Close_def Unmarshal_def example_design_lib_def Let_def)

theorem SyncDesign_unchanged_witness:
  "SyncDesign example_lib example_design_lib (example_db server_unchanged) Background local_design world0 =
     (Return None, local_design\<lparr>Rev := ''1-619db7ba''\<rparr>,
      \<lparr>server = Suc 0,
       sent = [\<lparr>req_method = ''GET'', req_url = ''http://127.0.0.1:5984/db/_design%2Ftest'',
                req_header = [], req_body = None, req_ctx = Background\<rparr>]\<rparr>)"
proof -
  have r: "Rev remote_design \<noteq> ''''"
    by (simp add: remote_design_def)
  have c: "ViewChecksum example_design_lib remote_design = ViewChecksum example_design_lib local_design"
    by (simp add: ViewChecksum_def remote_design_def local_design_def)
  from SyncDesign_unchanged [OF Get_unchanged_example r c] show ?thesis
    by (simp add: remote_design_def)
qed

text \<open>
  C8: when the fetch fails with an error that is not a not-found error, \<open>SyncDesign\<close>
  returns that error and leaves the design as it was; when the write is attempted and
  the PUT returns an error, \<open>SyncDesign\<close> returns that error and the design is left
  with its revision cleared.
\<close>

theorem SyncDesign_errors:
  "(Get L db c (ID d) (decode_design D) [] w = (Inl err, w1) \<and>
    NotFound (Some err) \<noteq> Return True \<longrightarrow>
      SyncDesign L D db c d w = (Return (Some err), d, w1)) \<and>
   (Get L db c (ID d) (decode_design D) [] w = (g, w1) \<and>
    ((\<exists>e. g = Inl e \<and> NotFound (Some e) = Return True \<and> prev = new_Design) \<or>
     (g = Inr prev \<and> \<not> (Rev prev \<noteq> '''' \<and> ViewChecksum D d = ViewChecksum D prev))) \<and>
    Put L db c (ID d) (\<lambda>x. Inr (marshal_design D x)) (d\<lparr>Rev := ''''\<rparr>) (Rev prev) w1 =
      (Return (Inl err), w2) \<longrightarrow>
      SyncDesign L D db c d w = (Return (Some err), d\<lparr>Rev := ''''\<rparr>, w2))"
proof (intro conjI impI)
  assume a: "Get L db c (ID d) (decode_design D) [] w = (Inl err, w1) \<and>
             NotFound (Some err) \<noteq> Return True"
  then have "err \<noteq> ErrorPtr None"
    using Get_error_not_nil by blast
  then have "\<exists>nf. NotFound (Some err) = Return nf"
    by (cases err rule: Error_text.cases) (auto simp add: NotFound_def)
  then obtain nf where nf: "NotFound (Some err) = Return nf" ..
  with a have "\<not> nf" by auto
  with a nf show "SyncDesign L D db c d w = (Return (Some err), d, w1)"
    by (simp add: SyncDesign_def)
next
  assume a: "Get L db c (ID d) (decode_design D) [] w = (g, w1) \<and>
    ((\<exists>e. g = Inl e \<and> NotFound (Some e) = Return True \<and> prev = new_Design) \<or>
     (g = Inr prev \<and> \<not> (Rev prev \<noteq> '''' \<and> ViewChecksum D d = ViewChecksum D prev))) \<and>
    Put L db c (ID d) (\<lambda>x. Inr (marshal_design D x)) (d\<lparr>Rev := ''''\<rparr>) (Rev prev) w1 =
      (Return (Inl err), w2)"
  then have n: "\<not> (Rev prev \<noteq> '''' \<and> ViewChecksum D d = ViewChecksum D prev)"
    by (auto simp add: new_Design_def)
  from a n show "SyncDesign L D db c d w = (Return (Some err), d\<lparr>Rev := ''''\<rparr>, w2)"
    by (auto simp add: SyncDesign_def Let_def)
qed

lemma Get_down_example:
  "Get example_lib (example_db server_down) Background (ID stale_design)
       (decode_design example_design_lib) [] world0 =
     (Inl (ErrorString ''dial tcp: connection refused''),
      \<lparr>server = 0,
       sent = [\<lparr>req_method = ''GET'', req_url = ''http://127.0.0.1:5984/db/_design%2Ftest'',
                req_header = [], req_body = None, req_ctx = Background\<rparr>]\<rparr>)"
  by (simp add: Get_def optpath_def path_example stale_design_def example_db_def request_def
        newRequest_def NewRequest_def example_lib_def Do_def server_down_def world0_def Let_def)

lemma Get_missing_example:
  "Get example_lib (example_db server_conflict) Background (ID stale_design)
       (decode_design example_design_lib) [] world0 =
     (Inl (ErrorPtr (Some \<lparr>Method = ''GET'', URL = ''http://127.0.0.1:5984/db/_design%2Ftest'',
                            StatusCode = 404, ErrorCode = ''not_found'', Reason = ''missing''\<rparr>)),
      \<lparr>server = Suc 0,
       sent = [\<lparr>req_method = ''GET'', req_url = ''http://127.0.0.1:5984/db/_design%2Ftest'',
                req_header = [], req_body = None, req_ctx = Background\<rparr>]\<rparr>)"
proof -
  have "not_found_body \<noteq> []"
    by (simp add: not_found_body_def)
  then show ?thesis
    by (simp add: Get_def optpath_def path_example stale_design_def example_db_def request_def
        newRequest_def NewRequest_def example_lib_def Do_def server_conflict_def world0_def
        respond_def parseError_def readBody_def ReadAll_def Close_def Unmarshal_def Let_def)
qed

lemma Put_conflict_example:
  "Put example_lib (example_db server_conflict) Background (ID stale_design)
       (\<lambda>x. Inr (marshal_design example_design_lib x)) (stale_design\<lparr>Rev := ''''\<rparr>)
       (Rev new_Design)
       \<lparr>server = Suc 0,
        sent = [\<lparr>req_method = ''GET'', req_url = ''http://127.0.0.1:5984/db/_design%2Ftest'',
                 req_header = [], req_body = None, req_ctx = Background\<rparr>]\<rparr> =
     (Return (Inl (ErrorPtr (Some \<lparr>Method = ''PUT'', URL = ''http://127.0.0.1:5984/db/_design%2Ftest'',
                            StatusCode = 409,
                            ErrorCode = couldnt_decode @ ''invalid character'',
                            Reason = couldnt_decode @ ''invalid character''\<rparr>))),
      \<lparr>server = Suc (Suc 0),
       sent = [\<lparr>req_method = ''GET'', req_url = ''http://127.0.0.1:5984/db/_design%2Ftest'',
                req_header = [], req_body = None, req_ctx = Background\<rparr>,
               \<lparr>req_method = ''PUT'', req_url = ''http://127.0.0.1:5984/db/_design%2Ftest'',
                req_header = [(''Content-Type'', ''application/json'')],
                req_body = Some (marshal_design example_design_lib (stale_design\<lparr>Rev := ''''\<rparr>)),
                req_ctx = Background\<rparr>]\<rparr>)"
proof -
  have "''<html>'' \<noteq> not_found_body"
    by (simp add: not_found_body_def)
  then show ?thesis
    by (simp add: Put_def revpath_def new_Design_def path_example stale_design_def example_db_def
        closedRequest_def request_def newRequest_def NewRequest_def example_lib_def Do_def
        server_conflict_def respond_def parseError_def readBody_def ReadAll_def Close_def
        Unmarshal_def Header_Set_def responseRev_def Let_def)
qed

theorem SyncDesign_errors_witness:
  "SyncDesign example_lib example_design_lib (example_db server_down) Background stale_design world0 =
     (Return (Some (ErrorString ''dial tcp: connection refused'')), stale_design,
      \<lparr>server = 0,
       sent = [\<lparr>req_method = ''GET'', req_url = ''http://127.0.0.1:5984/db/_design%2Ftest'',
                req_header = [], req_body = None, req_ctx = Background\<rparr>]\<rparr>) \<and>
   (\<exists>e w2. SyncDesign example_lib example_design_lib (example_db server_conflict) Background
              stale_design world0 =
            (Return (Some (ErrorPtr (Some e))), stale_design\<lparr>Rev := ''''\<rparr>, w2) \<and>
          StatusCode e = 409 \<and> length (sent w2) = 2)"
proof -
  have n1: "NotFound (Some (ErrorString ''dial tcp: connection refused'')) \<noteq> Return True"
    by (simp add: NotFound_def)
  have n2: "NotFound (Some (ErrorPtr (Some \<lparr>Method = ''GET'',
              URL = ''http://127.0.0.1:5984/db/_design%2Ftest'',
              StatusCode = 404, ErrorCode = ''not_found'', Reason = ''missing''\<rparr>))) = Return True"
    by (simp add: NotFound_def StatusNotFound_def)
  note thm1 = SyncDesign_errors [where L = example_lib and D = example_design_lib
      and db = "example_db server_down" and c = Background and d = stale_design and w = world0,
      THEN conjunct1, rule_format, OF conjI, OF Get_down_example n1]
  note thm2 = SyncDesign_errors [where L = example_lib and D = example_design_lib
      and db = "example_db server_conflict" and c = Background and d = stale_design and w = world0
      and prev = new_Design,
      THEN conjunct2, rule_format, OF conjI, OF Get_missing_example, OF conjI,
      OF disjI1, OF exI, OF conjI, OF refl, OF conjI, OF n2 refl Put_conflict_example]
  from thm1 thm2 show ?thesis
    by simp
qed

subsection \<open>The write of a design document\<close>





end
